theory Spec2Isabelle
  imports Complex_Main
begin

section \<open>American option pricing: the data model\<close>

text \<open>
  The development follows \<^verbatim>\<open>src/examples/american_pricing/american_pricing.py\<close>.
  Python floats are read as real numbers: rounding, overflow to an infinity and NaN are
  outside the model. The one place where the code's result hinges on a NaN without any
  overflow (the average of an empty array) is written out as a branch of its own. What
  depends on the size of the cash flows is stated on a second reading of the same lines,
  in doubles with their infinities and NaN. The time index of the backward induction is
  a Python \<^verbatim>\<open>int\<close>; it reaches the caller's functions through \<^term>\<open>real\<close>.
\<close>

text \<open>
  The class \<^verbatim>\<open>AmericanPricing\<close>: the five attributes set by \<^verbatim>\<open>__init__\<close>. The
  callables are the caller's and are taken to be pure and total.
\<close>

record AmericanPricing =
  spot_price :: real
  payoff :: "real \<Rightarrow> real list \<Rightarrow> real"
  expiry :: real
  dispersion :: "real \<Rightarrow> real \<Rightarrow> real"
  ir :: "real \<Rightarrow> real"

text \<open>
  What the module calls and does not define. \<^verbatim>\<open>get_future_price_mean_var\<close> lives in
  \<^verbatim>\<open>num_utils\<close>, a module outside this file; \<^verbatim>\<open>np.random.normal\<close> and
  \<^verbatim>\<open>np.linalg.lstsq\<close> are numpy's. All three are parameters of the model. The sampler
  reads and advances numpy's global generator, whose state is the type \<open>'g\<close>: a draw maps
  the state, the mean and the standard deviation to the drawn value and the next state.
  \<^verbatim>\<open>lstsq\<close> maps the design matrix (a list of rows) and the targets to the coefficient
  vector, element \<^verbatim>\<open>[0]\<close> of numpy's result.
\<close>

record 'g numlib =
  get_future_price_mean_var ::
    "real \<Rightarrow> real \<Rightarrow> real \<Rightarrow> (real \<Rightarrow> real) \<Rightarrow> (real \<Rightarrow> real \<Rightarrow> real) \<Rightarrow> real \<times> real"
  random_normal :: "'g \<Rightarrow> real \<Rightarrow> real \<Rightarrow> real \<times> 'g"
  lstsq :: "real list list \<Rightarrow> real list \<Rightarrow> real list"

text \<open>
  The ways in which a statement of the module stops a call. \<open>ValueError\<close>, \<open>IndexError\<close>
  and \<open>LinAlgError\<close> are the exceptions of numpy and Python. \<open>DivisionByZero\<close> marks a
  float division by zero, whose outcome depends on the run-time type of the dividend: a
  Python \<^verbatim>\<open>float\<close>
  raises \<^verbatim>\<open>ZeroDivisionError\<close>, a numpy scalar gives an infinity or a NaN and the call goes
  on with it, outside the real numbers. The model stops at the division in both cases
  and says nothing about what follows.
\<close>

datatype error = DivisionByZero | ValueError | IndexError | LinAlgError

section \<open>The MDP adapter\<close>

text \<open>
  A state of the MDP is a pair of a time and a numpy array. Arrays are objects: the state
  holds a reference, and the array's contents sit in a store. The store is a list of
  arrays, a reference is a position in it, and allocation adds at the end. Python
  references are always live, so the model reads \<open>h ! a\<close> without a check and every
  statement about it assumes \<open>a < length h\<close>.
\<close>

type_synonym ref = nat
type_synonym heap = "real list list"
type_synonym StateType = "real \<times> ref"
type_synonym ActionType = bool

text \<open>\<^verbatim>\<open>np.append(arr, x)\<close> allocates a new array holding a copy of \<^verbatim>\<open>arr\<close> followed by \<^verbatim>\<open>x\<close>.\<close>

definition np_append :: "heap \<Rightarrow> ref \<Rightarrow> real \<Rightarrow> ref \<times> heap" where
  "np_append h a x = (length h, h @ [h ! a @ [x]])"

text \<open>
  \<^verbatim>\<open>state_reward_gen\<close>, lines 102 to 120. The reward is computed first; \<^verbatim>\<open>price_arr[-1]\<close>
  raises \<^verbatim>\<open>IndexError\<close> on an empty array, before anything is drawn or allocated.
\<close>

fun state_reward_gen ::
  "'g numlib \<Rightarrow> AmericanPricing \<Rightarrow> StateType \<Rightarrow> ActionType \<Rightarrow> real \<Rightarrow> heap \<times> 'g
    \<Rightarrow> (error + (StateType \<times> real)) \<times> (heap \<times> 'g)" where
  "state_reward_gen L ap (t, price_arr) action delta_t (h, g) =
    (let reward = (if action then exp (- ir ap t) * payoff ap t (h ! price_arr) else 0)
     in if h ! price_arr = [] then (Inl IndexError, (h, g))
        else
          let (m, v) = get_future_price_mean_var L (last (h ! price_arr)) t delta_t
                         (ir ap) (dispersion ap);
              (next_price, g') = random_normal L g m (sqrt v);
              (price1, h') = np_append h price_arr next_price;
              next_t = (if action then expiry ap else t) + delta_t
          in (Inr ((next_t, price1), reward), (h', g')))"

text \<open>\<^verbatim>\<open>terminal_state\<close>, the closure of \<^verbatim>\<open>get_tdl_obj\<close> at lines 140 to 143.\<close>

definition terminal_state :: "AmericanPricing \<Rightarrow> real \<times> 'a \<Rightarrow> bool" where
  "terminal_state ap s = (fst s > expiry ap)"

section \<open>The Longstaff-Schwartz price\<close>

subsection \<open>Array operations of numpy used by \<^verbatim>\<open>get_ls_price\<close>\<close>

text \<open>
  \<^verbatim>\<open>np.empty([r, c])\<close>: an \<open>r\<close> by \<open>c\<close> array, a list of rows. numpy leaves the cells
  uninitialised; the model fills them with \<open>0\<close>, and \<^verbatim>\<open>get_ls_price\<close> assigns every cell
  before it reads one.
\<close>

definition np_empty :: "nat \<Rightarrow> nat \<Rightarrow> real list list" where
  "np_empty r c = replicate r (replicate c 0)"

text \<open>
  The assignment \<^verbatim>\<open>paths[i, j] = x\<close>. The code's indices come from \<^verbatim>\<open>range(num_paths)\<close>
  and \<^verbatim>\<open>range(num_dt)\<close> over an array of \<^verbatim>\<open>num_paths\<close> rows and \<^verbatim>\<open>num_dt + 1\<close> columns,
  so they are within bounds.
\<close>

definition set2d :: "real list list \<Rightarrow> nat \<Rightarrow> nat \<Rightarrow> real \<Rightarrow> real list list" where
  "set2d paths i j x = paths[i := (paths ! i)[j := x]]"

text \<open>\<^verbatim>\<open>x_vals.dot(w)\<close>: the product of a matrix, given by its rows, and a vector.\<close>

definition np_dot :: "real list list \<Rightarrow> real list \<Rightarrow> real list" where
  "np_dot x_vals w = map (\<lambda>row. sum_list (map2 (*) row w)) x_vals"

text \<open>\<^verbatim>\<open>np.average\<close> of a non-empty array.\<close>

definition np_average :: "real list \<Rightarrow> real" where
  "np_average xs = sum_list xs / real (length xs)"

subsection \<open>Path simulation, lines 49 to 62\<close>

text \<open>
  The body of the inner loop at time index \<open>t\<close> of path \<open>i\<close>. The loop carries the
  running price, the array and the generator.
\<close>

definition sim_step ::
  "'g numlib \<Rightarrow> AmericanPricing \<Rightarrow> real \<Rightarrow> nat \<Rightarrow> nat
    \<Rightarrow> real \<times> real list list \<times> 'g \<Rightarrow> real \<times> real list list \<times> 'g" where
  "sim_step L ap dt i t = (\<lambda>(price, paths, g).
     let (m, v) = get_future_price_mean_var L price (real t) dt (ir ap) (dispersion ap);
         (price', g') = random_normal L g m (sqrt v)
     in (price', set2d paths i (t + 1) price', g'))"

text \<open>The body of the outer loop: path \<open>i\<close> starts at the spot price and takes \<open>num_dt\<close> steps.\<close>

definition sim_path ::
  "'g numlib \<Rightarrow> AmericanPricing \<Rightarrow> real \<Rightarrow> nat \<Rightarrow> nat
    \<Rightarrow> real list list \<times> 'g \<Rightarrow> real list list \<times> 'g" where
  "sim_path L ap dt num_dt i = (\<lambda>(paths, g).
     let (price, paths', g') = fold (sim_step L ap dt i) [0..<num_dt] (spot_price ap, paths, g)
     in (paths', g'))"

definition simulate_paths ::
  "'g numlib \<Rightarrow> AmericanPricing \<Rightarrow> real \<Rightarrow> nat \<Rightarrow> nat \<Rightarrow> 'g \<Rightarrow> real list list \<times> 'g" where
  "simulate_paths L ap dt num_dt num_paths g =
     (let paths0 = np_empty num_paths (num_dt + 1);
          paths1 = map (\<lambda>row. row[0 := spot_price ap]) paths0
      in fold (sim_path L ap dt num_dt) [0..<num_paths] (paths1, g))"

subsection \<open>Backward induction, lines 63 to 95\<close>

text \<open>The cash flows at expiry, lines 63 and 64.\<close>

definition initial_cashflow :: "AmericanPricing \<Rightarrow> nat \<Rightarrow> real list list \<Rightarrow> real list" where
  "initial_cashflow ap num_paths paths =
     map (\<lambda>i. max (payoff ap (expiry ap) (paths ! i)) 0) [0..<num_paths]"

text \<open>
  The loop of lines 93 to 95 over \<^verbatim>\<open>enumerate(indices)\<close>: path \<open>ind\<close>, the \<open>i\<close>-th path in
  the money, takes its payoff when that exceeds the fitted value.
\<close>

fun exercise :: "real list \<Rightarrow> real list \<Rightarrow> (nat \<times> nat) list \<Rightarrow> real list \<Rightarrow> real list" where
  "exercise payoff_arr estimate [] cashflow = cashflow"
| "exercise payoff_arr estimate ((i, ind) # rest) cashflow =
     exercise payoff_arr estimate rest
       (if payoff_arr ! ind > estimate ! i then cashflow[ind := payoff_arr ! ind] else cashflow)"

text \<open>The one-step discount factor of line 77.\<close>

definition disc :: "AmericanPricing \<Rightarrow> real \<Rightarrow> nat \<Rightarrow> real" where
  "disc ap dt t = exp (ir ap (real t) - ir ap (real t + dt))"

text \<open>The body of the backward loop at time index \<open>t\<close>, lines 77 to 95.\<close>

definition ls_step ::
  "'g numlib \<Rightarrow> AmericanPricing \<Rightarrow> (real \<Rightarrow> real list \<Rightarrow> real) list \<Rightarrow> nat \<Rightarrow> real
    \<Rightarrow> real list list \<Rightarrow> nat \<Rightarrow> real list \<Rightarrow> real list" where
  "ls_step L ap feature_funcs num_paths dt paths t cashflow =
     (let cashflow1 = map (\<lambda>c. c * disc ap dt t) cashflow;
          payoff_arr = map (\<lambda>i. payoff ap (real t) (take (t + 1) (paths ! i))) [0..<num_paths];
          indices = filter (\<lambda>i. payoff_arr ! i > 0) [0..<num_paths]
      in if length indices > 0 then
           let x_vals = map (\<lambda>i. map (\<lambda>f. f (real t) (take (t + 1) (paths ! i))) feature_funcs)
                          indices;
               y_vals = map (\<lambda>i. cashflow1 ! i) indices;
               estimate = np_dot x_vals (lstsq L x_vals y_vals)
           in exercise payoff_arr estimate (enumerate 0 indices) cashflow1
         else cashflow1)"

text \<open>The loop \<^verbatim>\<open>for t in range(num_dt - 1, 0, -1)\<close>.\<close>

definition backward_induction ::
  "'g numlib \<Rightarrow> AmericanPricing \<Rightarrow> (real \<Rightarrow> real list \<Rightarrow> real) list \<Rightarrow> nat \<Rightarrow> nat \<Rightarrow> real
    \<Rightarrow> real list list \<Rightarrow> real list \<Rightarrow> real list" where
  "backward_induction L ap feature_funcs num_dt num_paths dt paths cashflow =
     fold (ls_step L ap feature_funcs num_paths dt paths) (rev [1..<num_dt]) cashflow"

subsection \<open>The entry point, lines 42 to 100\<close>

text \<open>
  \<^verbatim>\<open>get_ls_price\<close> checks nothing itself. On bad counts the statements it runs stop it:
  \<^verbatim>\<open>np.empty\<close> raises \<^verbatim>\<open>ValueError\<close> on a negative dimension, and the write to column 0 of
  an array without columns raises \<^verbatim>\<open>IndexError\<close>. When \<^verbatim>\<open>num_dt\<close> is zero, line 48 divides
  by zero and the model stops there. With no path at all the average of line 99 is NaN,
  which never compares greater, so \<^verbatim>\<open>max\<close> returns its first argument.
\<close>

definition get_ls_price ::
  "'g numlib \<Rightarrow> AmericanPricing \<Rightarrow> int \<Rightarrow> int \<Rightarrow> (real \<Rightarrow> real list \<Rightarrow> real) list \<Rightarrow> 'g
    \<Rightarrow> (error + real) \<times> 'g" where
  "get_ls_price L ap num_dt num_paths feature_funcs g =
     (if num_dt = 0 then (Inl DivisionByZero, g)
      else if num_paths < 0 \<or> num_dt + 1 < 0 then (Inl ValueError, g)
      else if num_dt + 1 = 0 then (Inl IndexError, g)
      else
        let dt = expiry ap / real_of_int num_dt;
            (paths, g') = simulate_paths L ap dt (nat num_dt) (nat num_paths) g;
            cashflow = backward_induction L ap feature_funcs (nat num_dt) (nat num_paths) dt paths
                         (initial_cashflow ap (nat num_paths) paths)
        in if num_paths = 0 then (Inr (payoff ap 0 [spot_price ap]), g')
           else (Inr (max (payoff ap 0 [spot_price ap])
                          (np_average (map (\<lambda>c. c * exp (- ir ap dt)) cashflow))), g'))"

section \<open>The cash flows in doubles\<close>

text \<open>
  Between the simulation and the returned price, lines 63 to 100 multiply the cash flows
  by exponentials of the rate curve, and an exponential overflows easily. This section
  reads those lines once more, in numpy's doubles as far as infinities and NaN go. A
  result is exact unless its magnitude reaches the overflow threshold, where it becomes
  an infinity, or falls to the underflow threshold, where it becomes zero; rounding in
  between and the sign of zero are left out. The caller's functions and the simulated
  prices remain real numbers, that is, finite.
\<close>

datatype npfloat = Finite real | PosInf | NegInf | NaN

text \<open>
  Halfway between the largest double and \<open>2 ^ 1024\<close>, and half the smallest positive
  double.
\<close>

definition overflow_threshold :: real where
  "overflow_threshold = 2 ^ 1024 - 2 ^ 970"

definition underflow_threshold :: real where
  "underflow_threshold = 1 / 2 ^ 1075"

definition np_round :: "real \<Rightarrow> npfloat" where
  "np_round r =
     (if overflow_threshold \<le> r then PosInf
      else if r \<le> - overflow_threshold then NegInf
      else if \<bar>r\<bar> \<le> underflow_threshold then Finite 0
      else Finite r)"

text \<open>Product, sum and exponential: zero times an infinity is NaN, and so is \<open>inf - inf\<close>.\<close>

fun fmul :: "npfloat \<Rightarrow> npfloat \<Rightarrow> npfloat" where
  "fmul NaN y = NaN"
| "fmul x NaN = NaN"
| "fmul (Finite a) (Finite b) = np_round (a * b)"
| "fmul (Finite a) PosInf = (if a = 0 then NaN else if 0 < a then PosInf else NegInf)"
| "fmul (Finite a) NegInf = (if a = 0 then NaN else if 0 < a then NegInf else PosInf)"
| "fmul PosInf (Finite b) = (if b = 0 then NaN else if 0 < b then PosInf else NegInf)"
| "fmul NegInf (Finite b) = (if b = 0 then NaN else if 0 < b then NegInf else PosInf)"
| "fmul PosInf PosInf = PosInf"
| "fmul PosInf NegInf = NegInf"
| "fmul NegInf PosInf = NegInf"
| "fmul NegInf NegInf = PosInf"

fun fadd :: "npfloat \<Rightarrow> npfloat \<Rightarrow> npfloat" where
  "fadd NaN y = NaN"
| "fadd x NaN = NaN"
| "fadd (Finite a) (Finite b) = np_round (a + b)"
| "fadd PosInf NegInf = NaN"
| "fadd NegInf PosInf = NaN"
| "fadd PosInf y = PosInf"
| "fadd x PosInf = PosInf"
| "fadd NegInf y = NegInf"
| "fadd x NegInf = NegInf"

fun fexp :: "npfloat \<Rightarrow> npfloat" where
  "fexp (Finite a) = np_round (exp a)"
| "fexp PosInf = PosInf"
| "fexp NegInf = Finite 0"
| "fexp NaN = NaN"

text \<open>Division by the number of elements, as in the mean of an array; \<open>0 / 0\<close> is NaN.\<close>

fun fdiv_count :: "npfloat \<Rightarrow> nat \<Rightarrow> npfloat" where
  "fdiv_count (Finite a) n =
     (if n = 0 then (if a = 0 then NaN else if 0 < a then PosInf else NegInf)
      else np_round (a / real n))"
| "fdiv_count x n = x"

text \<open>The comparisons \<^verbatim>\<open>>\<close> and \<^verbatim>\<open><=\<close>: false as soon as one side is NaN.\<close>

fun fgt :: "npfloat \<Rightarrow> npfloat \<Rightarrow> bool" where
  "fgt NaN y = False"
| "fgt x NaN = False"
| "fgt (Finite a) (Finite b) = (b < a)"
| "fgt x PosInf = False"
| "fgt NegInf y = False"
| "fgt PosInf y = True"
| "fgt x NegInf = True"

fun fle :: "npfloat \<Rightarrow> npfloat \<Rightarrow> bool" where
  "fle NaN y = False"
| "fle x NaN = False"
| "fle (Finite a) (Finite b) = (a \<le> b)"
| "fle NegInf y = True"
| "fle x PosInf = True"
| "fle x y = False"

text \<open>The values a cash flow takes: a non-negative number, \<open>+inf\<close>, or NaN.\<close>

fun nonneg_or_nan :: "npfloat \<Rightarrow> bool" where
  "nonneg_or_nan (Finite a) = (0 \<le> a)"
| "nonneg_or_nan PosInf = True"
| "nonneg_or_nan NegInf = False"
| "nonneg_or_nan NaN = True"

text \<open>
  Python's \<^verbatim>\<open>max(a, b)\<close> keeps \<^verbatim>\<open>a\<close> unless \<^verbatim>\<open>b > a\<close>; a NaN in second place is
  dropped.
\<close>

definition py_max :: "npfloat \<Rightarrow> npfloat \<Rightarrow> npfloat" where
  "py_max a b = (if fgt b a then b else a)"

text \<open>
  Sums. numpy adds in blocks rather than from left to right; the cash flows are never
  negative, and for such values the order does not change whether a sum overflows.
\<close>

definition fsum :: "npfloat list \<Rightarrow> npfloat" where
  "fsum xs = foldl fadd (Finite 0) xs"

definition np_average_np :: "npfloat list \<Rightarrow> npfloat" where
  "np_average_np xs = fdiv_count (fsum xs) (length xs)"

definition np_dot_np :: "real list list \<Rightarrow> npfloat list \<Rightarrow> npfloat list" where
  "np_dot_np x_vals w = map (\<lambda>row. fsum (map2 (\<lambda>x c. fmul (Finite x) c) row w)) x_vals"

text \<open>Lines 63 and 64: the payoffs are finite, so are the cash flows at expiry.\<close>

definition initial_cashflow_np :: "AmericanPricing \<Rightarrow> nat \<Rightarrow> real list list \<Rightarrow> npfloat list" where
  "initial_cashflow_np ap num_paths paths =
     map (\<lambda>i. Finite (max (payoff ap (expiry ap) (paths ! i)) 0)) [0..<num_paths]"

text \<open>Lines 93 to 95.\<close>

fun exercise_np ::
  "real list \<Rightarrow> npfloat list \<Rightarrow> (nat \<times> nat) list \<Rightarrow> npfloat list \<Rightarrow> npfloat list" where
  "exercise_np payoff_arr estimate [] cashflow = cashflow"
| "exercise_np payoff_arr estimate ((i, ind) # rest) cashflow =
     exercise_np payoff_arr estimate rest
       (if fgt (Finite (payoff_arr ! ind)) (estimate ! i)
        then cashflow[ind := Finite (payoff_arr ! ind)] else cashflow)"

text \<open>Line 77: the difference of two values of the rate curve, then its exponential.\<close>

definition disc_np :: "AmericanPricing \<Rightarrow> real \<Rightarrow> nat \<Rightarrow> npfloat" where
  "disc_np ap dt t = fexp (np_round (ir ap (real t) - ir ap (real t + dt)))"

text \<open>
  Lines 77 to 95. The regression is a parameter, \<open>lstsq_np\<close>, which receives the
  discounted cash flows of the paths in the money, finite or not, and may raise
  \<^verbatim>\<open>LinAlgError\<close>; the error then leaves the loop.
\<close>

definition ls_step_np ::
  "(real list list \<Rightarrow> npfloat list \<Rightarrow> error + npfloat list) \<Rightarrow> AmericanPricing
    \<Rightarrow> (real \<Rightarrow> real list \<Rightarrow> real) list \<Rightarrow> nat \<Rightarrow> real
    \<Rightarrow> real list list \<Rightarrow> nat \<Rightarrow> npfloat list \<Rightarrow> error + npfloat list" where
  "ls_step_np lstsq_np ap feature_funcs num_paths dt paths t cashflow =
     (let cashflow1 = map (\<lambda>c. fmul c (disc_np ap dt t)) cashflow;
          payoff_arr = map (\<lambda>i. payoff ap (real t) (take (t + 1) (paths ! i))) [0..<num_paths];
          indices = filter (\<lambda>i. payoff_arr ! i > 0) [0..<num_paths]
      in if length indices > 0 then
           let x_vals = map (\<lambda>i. map (\<lambda>f. f (real t) (take (t + 1) (paths ! i))) feature_funcs)
                          indices;
               y_vals = map (\<lambda>i. cashflow1 ! i) indices
           in case lstsq_np x_vals y_vals of
                Inl e \<Rightarrow> Inl e
              | Inr w \<Rightarrow> Inr (exercise_np payoff_arr (np_dot_np x_vals w)
                               (enumerate 0 indices) cashflow1)
         else Inr cashflow1)"

text \<open>The backward loop over the time indices \<open>ts\<close>, stopping at the first error.\<close>

fun backward_induction_np ::
  "(real list list \<Rightarrow> npfloat list \<Rightarrow> error + npfloat list) \<Rightarrow> AmericanPricing
    \<Rightarrow> (real \<Rightarrow> real list \<Rightarrow> real) list \<Rightarrow> nat \<Rightarrow> real
    \<Rightarrow> real list list \<Rightarrow> nat list \<Rightarrow> npfloat list \<Rightarrow> error + npfloat list" where
  "backward_induction_np lstsq_np ap feature_funcs num_paths dt paths [] cashflow = Inr cashflow"
| "backward_induction_np lstsq_np ap feature_funcs num_paths dt paths (t # ts) cashflow =
     (case ls_step_np lstsq_np ap feature_funcs num_paths dt paths t cashflow of
        Inl e \<Rightarrow> Inl e
      | Inr cashflow' \<Rightarrow>
          backward_induction_np lstsq_np ap feature_funcs num_paths dt paths ts cashflow')"

text \<open>The second argument of \<^verbatim>\<open>max\<close> at line 99.\<close>

definition discounted_average_np :: "AmericanPricing \<Rightarrow> real \<Rightarrow> npfloat list \<Rightarrow> npfloat" where
  "discounted_average_np ap dt cashflow =
     np_average_np (map (\<lambda>c. fmul c (fexp (Finite (- ir ap dt)))) cashflow)"

text \<open>
  Lines 42 to 100 with the cash flows in doubles. The simulation is the one above. With
  no path the average is \<open>0 / 0\<close>, so the case needs no branch of its own here.
\<close>

definition get_ls_price_np ::
  "'g numlib \<Rightarrow> (real list list \<Rightarrow> npfloat list \<Rightarrow> error + npfloat list) \<Rightarrow> AmericanPricing
    \<Rightarrow> int \<Rightarrow> int \<Rightarrow> (real \<Rightarrow> real list \<Rightarrow> real) list \<Rightarrow> 'g
    \<Rightarrow> (error + npfloat) \<times> 'g" where
  "get_ls_price_np L lstsq_np ap num_dt num_paths feature_funcs g =
     (if num_dt = 0 then (Inl DivisionByZero, g)
      else if num_paths < 0 \<or> num_dt + 1 < 0 then (Inl ValueError, g)
      else if num_dt + 1 = 0 then (Inl IndexError, g)
      else
        let dt = expiry ap / real_of_int num_dt;
            (paths, g') = simulate_paths L ap dt (nat num_dt) (nat num_paths) g
        in case backward_induction_np lstsq_np ap feature_funcs (nat num_paths) dt paths
                  (rev [1..<nat num_dt]) (initial_cashflow_np ap (nat num_paths) paths) of
             Inl e \<Rightarrow> (Inl e, g')
           | Inr cashflow \<Rightarrow>
               (Inr (py_max (Finite (payoff ap 0 [spot_price ap]))
                            (discounted_average_np ap dt cashflow)), g'))"

section \<open>A concrete instance\<close>

text \<open>The option of the module's \<^verbatim>\<open>__main__\<close> block, lines 201 to 229.\<close>

definition gp :: AmericanPricing where
  "gp = \<lparr>spot_price = 80, payoff = (\<lambda>_ x. last x - 85), expiry = 3,
         dispersion = (\<lambda>t x. (25 / 100) * x), ir = (\<lambda>t. (3 / 100) * t)\<rparr>"

text \<open>
  Modelled from the spec: \<^verbatim>\<open>num_utils.get_future_price_mean_var\<close> is not among the sources.
  Following section 4.1, the mean carries the growth of the rate curve over the step and
  the variance is the squared dispersion times the step. The theorems below hold for every
  library; this instance only serves to run the definitions.
\<close>

definition mean_var_spec ::
  "real \<Rightarrow> real \<Rightarrow> real \<Rightarrow> (real \<Rightarrow> real) \<Rightarrow> (real \<Rightarrow> real \<Rightarrow> real) \<Rightarrow> real \<times> real" where
  "mean_var_spec x t delta_t ir_func dispersion_func =
     (x * exp (ir_func (t + delta_t) - ir_func t), (dispersion_func t x)\<^sup>2 * delta_t)"

text \<open>
  A sampler whose generator state is a counter: the draw is one standard deviation above
  the mean at even counts and one below at odd counts.
\<close>

definition alternating_normal :: "nat \<Rightarrow> real \<Rightarrow> real \<Rightarrow> real \<times> nat" where
  "alternating_normal g m s = (m + s * (if even g then 1 else - 1), Suc g)"

text \<open>
  Least squares for a design matrix of at most one column: the coefficient is
  \<open>\<Sum>xy / \<Sum>xx\<close>, and \<open>0\<close> (the solution of minimum norm) when the column is zero.
\<close>

definition lstsq_one_column :: "real list list \<Rightarrow> real list \<Rightarrow> real list" where
  "lstsq_one_column x_vals y_vals =
     (if x_vals = [] \<or> hd x_vals = [] then []
      else let xs = map hd x_vals;
               sxx = sum_list (map2 (*) xs xs);
               sxy = sum_list (map2 (*) xs y_vals)
           in [if sxx = 0 then 0 else sxy / sxx])"

definition demo_lib :: "nat numlib" where
  "demo_lib = \<lparr>get_future_price_mean_var = mean_var_spec,
               random_normal = alternating_normal,
               lstsq = lstsq_one_column\<rparr>"

text \<open>
  The same least squares on doubles: numpy's routine does not converge on a target that
  is not finite and raises \<^verbatim>\<open>LinAlgError\<close>.
\<close>

fun is_finite :: "npfloat \<Rightarrow> bool" where
  "is_finite (Finite a) = True"
| "is_finite x = False"

fun finite_value :: "npfloat \<Rightarrow> real" where
  "finite_value (Finite a) = a"
| "finite_value x = 0"

definition lstsq_np_one_column :: "real list list \<Rightarrow> npfloat list \<Rightarrow> error + npfloat list" where
  "lstsq_np_one_column x_vals y_vals =
     (if list_all is_finite y_vals
      then Inr (map np_round (lstsq_one_column x_vals (map finite_value y_vals)))
      else Inl LinAlgError)"

text \<open>
  The option of the example under a steeply falling rate curve, so that the discount
  factor of a step of a year and a half is \<open>exp 1500\<close>.
\<close>

definition steep_gp :: AmericanPricing where
  "steep_gp = gp\<lparr>ir := \<lambda>t. - (1000 * t)\<rparr>"

text \<open>An outcome of the draws in which every drawn price is \<open>80\<close>.\<close>

definition fixed_draws_lib :: "nat numlib" where
  "fixed_draws_lib = demo_lib\<lparr>random_normal := \<lambda>g m s. (80, Suc g)\<rparr>"

section \<open>Invariants of the loops\<close>

text \<open>
  The shape of the path array: \<open>num_paths\<close> rows of \<open>num_dt + 1\<close> cells, each row starting
  at the spot price.
\<close>

definition path_shape :: "nat \<Rightarrow> nat \<Rightarrow> real \<Rightarrow> real list list \<Rightarrow> bool" where
  "path_shape num_paths num_dt spot paths \<longleftrightarrow>
     length paths = num_paths
     \<and> (\<forall>i < num_paths. length (paths ! i) = num_dt + 1 \<and> paths ! i ! 0 = spot)"

text \<open>A property that every pass of a loop body keeps holds after the loop.\<close>

lemma fold_invariant:
  assumes "P s" and "\<And>x s. x \<in> set xs \<Longrightarrow> P s \<Longrightarrow> P (f x s)"
  shows "P (fold f xs s)"
  using assms by (induction xs arbitrary: s) auto

subsection \<open>Simulation keeps the shape\<close>

lemma path_shape_set2d:
  assumes "path_shape k n s paths" and "0 < j"
  shows "path_shape k n s (set2d paths i j x)"
proof -
  have len: "length paths = k"
    and rows: "\<And>a. a < k \<Longrightarrow> length (paths ! a) = n + 1 \<and> paths ! a ! 0 = s"
    using assms(1) by (simp_all add: path_shape_def)
  have "length (set2d paths i j x ! a) = n + 1 \<and> set2d paths i j x ! a ! 0 = s"
    if "a < k" for a
  proof (cases "a = i")
    case True
    with that len rows [of i] assms(2) show ?thesis
      by (simp add: set2d_def)
  next
    case False
    with that len rows [of a] show ?thesis
      by (simp add: set2d_def)
  qed
  with len show ?thesis
    by (simp add: path_shape_def set2d_def)
qed

lemma path_shape_sim_step:
  assumes "path_shape k n s (fst (snd st))"
  shows "path_shape k n s (fst (snd (sim_step L ap dt i t st)))"
  using assms
  by (cases st) (simp add: sim_step_def Let_def path_shape_set2d split: prod.splits)

lemma path_shape_sim_path:
  assumes "path_shape k n s (fst st)"
  shows "path_shape k n s (fst (sim_path L ap dt num_dt i st))"
proof -
  obtain paths g where st: "st = (paths, g)"
    by (cases st)
  have "path_shape k n s
          (fst (snd (fold (sim_step L ap dt i) [0..<num_dt] (spot_price ap, paths, g))))"
    by (rule fold_invariant [where P = "\<lambda>st. path_shape k n s (fst (snd st))"])
       (use assms st in \<open>simp_all add: path_shape_sim_step\<close>)
  then show ?thesis
    by (auto simp add: sim_path_def st split: prod.splits)
qed

lemma path_shape_initial:
  "path_shape k n s (map (\<lambda>row. row[0 := s]) (np_empty k (Suc n)))"
  by (simp add: path_shape_def np_empty_def)

lemma path_shape_simulate_paths:
  "path_shape num_paths num_dt (spot_price ap)
     (fst (simulate_paths L ap dt num_dt num_paths g))"
  unfolding simulate_paths_def Let_def
  by (rule fold_invariant
        [where P = "\<lambda>st. path_shape num_paths num_dt (spot_price ap) (fst st)"])
     (simp_all add: path_shape_initial path_shape_sim_path)

subsection \<open>The exercise loop writes only to paths in the money\<close>

lemma length_exercise [simp]:
  "length (exercise payoff_arr estimate pairs cashflow) = length cashflow"
  by (induction pairs arbitrary: cashflow) auto

lemma exercise_untouched:
  assumes "k \<notin> snd ` set pairs"
  shows "exercise payoff_arr estimate pairs cashflow ! k = cashflow ! k"
  using assms by (induction pairs arbitrary: cashflow) auto

lemma snd_enumerate: "snd ` set (enumerate n xs) = set xs"
  by (metis list.set_map map_snd_enumerate)

subsection \<open>Cash flows keep their number\<close>

lemma length_ls_step [simp]:
  "length (ls_step L ap feature_funcs num_paths dt paths t cashflow) = length cashflow"
  by (simp add: ls_step_def Let_def)

lemma length_backward_induction [simp]:
  "length (backward_induction L ap feature_funcs num_dt num_paths dt paths cashflow)
     = length cashflow"
  unfolding backward_induction_def
  by (rule fold_invariant [where P = "\<lambda>cf. length cf = length cashflow"]) simp_all

lemma length_initial_cashflow [simp]:
  "length (initial_cashflow ap num_paths paths) = num_paths"
  by (simp add: initial_cashflow_def)

subsection \<open>Cash flows in doubles are never negative\<close>

lemma overflow_threshold_pos: "0 < overflow_threshold"
proof -
  have "(2 :: real) ^ 970 < 2 ^ 1024"
    by (intro power_strict_increasing) simp_all
  then show ?thesis
    by (simp add: overflow_threshold_def del: power_numeral)
qed

lemma np_round_not_nan [simp]: "np_round r \<noteq> NaN"
  by (simp add: np_round_def)

lemma np_round_nonneg:
  assumes "0 \<le> r"
  shows "nonneg_or_nan (np_round r)"
  using assms overflow_threshold_pos by (simp add: np_round_def)

lemma fexp_nonneg:
  assumes "x \<noteq> NaN"
  shows "nonneg_or_nan (fexp x)"
  using assms by (cases x) (simp_all add: np_round_nonneg)

lemma fmul_nonneg_or_nan:
  assumes "nonneg_or_nan c" and "nonneg_or_nan d"
  shows "nonneg_or_nan (fmul c d)"
  using assms by (cases c; cases d) (simp_all add: np_round_nonneg)

lemma fadd_nonneg_or_nan:
  assumes "nonneg_or_nan c" and "nonneg_or_nan d"
  shows "nonneg_or_nan (fadd c d)"
  using assms by (cases c; cases d) (simp_all add: np_round_nonneg)

lemma foldl_fadd_nonneg_or_nan:
  assumes "nonneg_or_nan a" and "\<forall>c \<in> set xs. nonneg_or_nan c"
  shows "nonneg_or_nan (foldl fadd a xs)"
  using assms by (induction xs arbitrary: a) (simp_all add: fadd_nonneg_or_nan)

lemma np_average_np_nonneg_or_nan:
  assumes "\<forall>c \<in> set xs. nonneg_or_nan c"
  shows "nonneg_or_nan (np_average_np xs)"
proof -
  have "nonneg_or_nan (fsum xs)"
    unfolding fsum_def using assms by (intro foldl_fadd_nonneg_or_nan) simp_all
  then show ?thesis
    unfolding np_average_np_def by (cases "fsum xs") (simp_all add: np_round_nonneg)
qed

lemma disc_np_nonneg: "nonneg_or_nan (disc_np ap dt t)"
  unfolding disc_np_def by (simp add: fexp_nonneg)

lemma exercise_np_nonneg_or_nan:
  assumes "\<forall>c \<in> set cashflow. nonneg_or_nan c"
    and "\<forall>ind \<in> snd ` set pairs. 0 < payoff_arr ! ind"
  shows "\<forall>c \<in> set (exercise_np payoff_arr estimate pairs cashflow). nonneg_or_nan c"
  using assms
proof (induction pairs arbitrary: cashflow)
  case Nil
  then show ?case by simp
next
  case (Cons p pairs)
  obtain i ind where p: "p = (i, ind)"
    by (cases p)
  have pos: "0 < payoff_arr ! ind"
    using Cons.prems(2) p by simp
  have "\<forall>c \<in> set (cashflow[ind := Finite (payoff_arr ! ind)]). nonneg_or_nan c"
    using Cons.prems(1) pos
      set_update_subset_insert [of cashflow ind "Finite (payoff_arr ! ind)"]
    by fastforce
  with Cons show ?case
    by (simp add: p)
qed

lemma ls_step_np_nonneg_or_nan:
  assumes "\<forall>c \<in> set cashflow. nonneg_or_nan c"
    and "ls_step_np lstsq_np ap feature_funcs num_paths dt paths t cashflow = Inr cashflow'"
  shows "\<forall>c \<in> set cashflow'. nonneg_or_nan c"
proof -
  let ?payoff_arr = "map (\<lambda>i. payoff ap (real t) (take (t + 1) (paths ! i))) [0..<num_paths]"
  let ?indices = "filter (\<lambda>i. ?payoff_arr ! i > 0) [0..<num_paths]"
  have discounted: "\<forall>c \<in> set (map (\<lambda>c. fmul c (disc_np ap dt t)) cashflow). nonneg_or_nan c"
    using assms(1) by (simp add: fmul_nonneg_or_nan disc_np_nonneg)
  have pos: "\<forall>ind \<in> snd ` set (enumerate 0 ?indices). 0 < ?payoff_arr ! ind"
    unfolding snd_enumerate by auto
  from assms(2) exercise_np_nonneg_or_nan [OF discounted pos] discounted show ?thesis
    by (auto simp add: ls_step_np_def Let_def split: if_splits sum.splits)
qed

lemma backward_induction_np_nonneg_or_nan:
  assumes "\<forall>c \<in> set cashflow. nonneg_or_nan c"
    and "backward_induction_np lstsq_np ap feature_funcs num_paths dt paths ts cashflow
           = Inr cashflow'"
  shows "\<forall>c \<in> set cashflow'. nonneg_or_nan c"
  using assms
proof (induction ts arbitrary: cashflow)
  case Nil
  then show ?case by simp
next
  case (Cons t ts)
  from Cons.prems(2) obtain cf where
    step: "ls_step_np lstsq_np ap feature_funcs num_paths dt paths t cashflow = Inr cf"
    and rest: "backward_induction_np lstsq_np ap feature_funcs num_paths dt paths ts cf
                 = Inr cashflow'"
    by (auto split: sum.splits)
  from ls_step_np_nonneg_or_nan [OF Cons.prems(1) step] Cons.IH rest show ?case
    by blast
qed

lemma initial_cashflow_np_nonneg:
  "\<forall>c \<in> set (initial_cashflow_np ap num_paths paths). nonneg_or_nan c"
  by (simp add: initial_cashflow_np_def)

lemma discounted_average_np_nonneg_or_nan:
  assumes "\<forall>c \<in> set cashflow. nonneg_or_nan c"
  shows "nonneg_or_nan (discounted_average_np ap dt cashflow)"
  unfolding discounted_average_np_def
  using assms
  by (intro np_average_np_nonneg_or_nan) (simp add: fmul_nonneg_or_nan np_round_nonneg)

lemma py_max_lower_bound:
  assumes "nonneg_or_nan a"
  shows "if a = NaN then py_max (Finite p) a = Finite p
         else fle (Finite (max p 0)) (py_max (Finite p) a)"
  using assms by (cases a) (auto simp add: py_max_def)

subsection \<open>Rounding concrete numbers\<close>

lemma exp_1500_overflows: "overflow_threshold \<le> exp (1500 :: real)"
proof -
  have "(2 :: real) \<le> exp 1"
    using exp_ge_add_one_self [of "1 :: real"] by simp
  then have "(2 :: real) ^ 1500 \<le> exp 1 ^ 1500"
    by (intro power_mono) simp_all
  also have "exp (1 :: real) ^ 1500 = exp 1500"
    using exp_of_nat_mult [of 1500 "1 :: real"] by simp
  finally have a: "(2 :: real) ^ 1500 \<le> exp 1500" .
  have "(2 :: real) ^ 1024 \<le> 2 ^ 1500"
    by (intro power_increasing) simp_all
  moreover have "overflow_threshold \<le> 2 ^ 1024"
    unfolding overflow_threshold_def by (simp del: power_numeral)
  ultimately show ?thesis
    using a by linarith
qed

lemma np_round_exp_1500: "np_round (exp 1500) = PosInf"
  by (simp add: np_round_def exp_1500_overflows)

lemma np_round_0: "np_round 0 = Finite 0"
  using overflow_threshold_pos by (simp add: np_round_def underflow_threshold_def)

lemma overflow_threshold_large: "1000000 < overflow_threshold"
  by (simp add: overflow_threshold_def)

lemma underflow_threshold_small: "underflow_threshold < 1 / 1000"
  by (simp add: underflow_threshold_def)

lemma np_round_moderate:
  assumes "1 / 1000 \<le> \<bar>r\<bar>" and "\<bar>r\<bar> \<le> 1000000"
  shows "np_round r = Finite r"
proof -
  have "\<bar>r\<bar> < overflow_threshold"
    using assms(2) overflow_threshold_large by linarith
  moreover have "underflow_threshold < \<bar>r\<bar>"
    using assms(1) underflow_threshold_small by linarith
  ultimately show ?thesis
    by (auto simp add: np_round_def)
qed

section \<open>Running the definitions\<close>

text \<open>
  The example with a flat rate curve: at time index \<open>1\<close> the second of two paths is in the
  money with payoff \<open>5\<close>. Regressed on the constant feature, its fitted value is its own
  cash flow, so it exercises when that is \<open>1\<close> and holds when it is \<open>15\<close>.
\<close>

lemma upt_0_2: "[0..<2] = [0, Suc 0]"
  by (simp add: numeral_2_eq_2)

lemma ls_step_exercises_example:
  "ls_step demo_lib (gp\<lparr>ir := \<lambda>t. 0\<rparr>) [\<lambda>t x. 1] 2 (3 / 2)
     [[80, 80, 90], [80, 90, 100]] 1 [5, 1] = [5, 5]"
  by (simp add: ls_step_def disc_def gp_def demo_lib_def lstsq_one_column_def np_dot_def
      enumerate_eq_zip upt_0_2 Let_def)

lemma ls_step_holds_example:
  "ls_step demo_lib (gp\<lparr>ir := \<lambda>t. 0\<rparr>) [\<lambda>t x. 1] 2 (3 / 2)
     [[80, 80, 90], [80, 90, 100]] 1 [5, 15] = [5, 15]"
  by (simp add: ls_step_def disc_def gp_def demo_lib_def lstsq_one_column_def np_dot_def
      enumerate_eq_zip upt_0_2 Let_def)

text \<open>
  One step of one year and two paths, with dispersion \<open>10\<close> and no interest: the paths end
  at \<open>90\<close> and \<open>70\<close>, the cash flows are \<open>5\<close> and \<open>0\<close>, and the price is their average.
\<close>

lemma get_ls_price_example:
  "get_ls_price demo_lib (gp\<lparr>expiry := 1, dispersion := \<lambda>t x. 10, ir := \<lambda>t. 0\<rparr>) 1 2 [] 0
     = (Inr (5 / 2), 2)"
  by (simp add: get_ls_price_def simulate_paths_def sim_path_def sim_step_def set2d_def
      np_empty_def backward_induction_def initial_cashflow_def np_average_def
      gp_def demo_lib_def mean_var_spec_def alternating_normal_def Let_def upt_0_2)

text \<open>
  In doubles: two steps of one year and two paths, with dispersion \<open>10\<close> and no interest.
  Both paths run \<open>80, 90, 80\<close>; they are in the money at time index \<open>1\<close>, the fitted value
  is \<open>0\<close>, and both exercise for \<open>5\<close>.
\<close>

lemma upt_1_2: "[Suc 0..<2] = [Suc 0]"
  by (simp add: numeral_2_eq_2)

lemma replicate_3: "replicate 3 x = [x, x, x]"
  by (simp add: numeral_3_eq_3)

lemma get_ls_price_np_example:
  "get_ls_price_np demo_lib lstsq_np_one_column
     (gp\<lparr>expiry := 2, dispersion := \<lambda>t x. 10, ir := \<lambda>t. 0\<rparr>) 2 2 [\<lambda>t x. 1] 0
     = (Inr (Finite 5), 4)"
  by (simp add: get_ls_price_np_def simulate_paths_def sim_path_def sim_step_def set2d_def
      np_empty_def initial_cashflow_np_def ls_step_np_def disc_np_def
      discounted_average_np_def np_average_np_def fsum_def py_max_def np_dot_np_def
      lstsq_np_one_column_def lstsq_one_column_def enumerate_eq_zip
      gp_def demo_lib_def mean_var_spec_def alternating_normal_def Let_def
      upt_0_2 upt_1_2 replicate_3 np_round_0 np_round_moderate)

section \<open>The claims about the MDP adapter\<close>

text \<open>
  C1, as the code has it. For a state whose price history is not empty,
  \<^verbatim>\<open>state_reward_gen\<close> returns, and the time of the next state is \<open>expiry + dt\<close> when
  the action is to exercise and \<open>t + dt\<close> when it is to continue. The next time after
  an exercise lies beyond the expiry by one step, which is what makes
  \<^verbatim>\<open>terminal_state\<close> hold of it; it is not the expiry itself.
\<close>

theorem state_reward_gen_next_time:
  assumes "price_arr < length h" and "h ! price_arr \<noteq> []"
  shows "\<exists>price1 reward w'. state_reward_gen L ap (t, price_arr) action dt (h, g) =
           (Inr ((if action then expiry ap + dt else t + dt, price1), reward), w')"
  using assms by (simp add: Let_def split: prod.splits)

text \<open>The theorem at the initial state of the example, exercising with a step of a tenth.\<close>

theorem state_reward_gen_next_time_witness:
  "\<exists>price1 reward w'. state_reward_gen demo_lib gp (0, 0) True (1 / 10) ([[80]], 0) =
     (Inr ((expiry gp + 1 / 10, price1), reward), w')"
  using state_reward_gen_next_time
    [where price_arr = 0 and h = "[[80]]" and L = demo_lib and ap = gp and t = 0
       and action = True and dt = "1 / 10" and g = 0]
  by simp

text \<open>
  Exercising at time \<open>0\<close> of the example with a step of a tenth leads to time \<open>3.1\<close>, while
  the expiry is \<open>3\<close>.
\<close>

theorem state_reward_gen_exercise_time_counterexample:
  "fst (state_reward_gen demo_lib gp (0, 0) True (1 / 10) ([[80]], 0)) = Inr ((31 / 10, 1), - 5)
   \<and> (31 / 10 :: real) \<noteq> expiry gp"
  by (simp add: gp_def demo_lib_def np_append_def mean_var_spec_def alternating_normal_def)

text \<open>
  C4. For a state whose price history is not empty, the reward that \<^verbatim>\<open>state_reward_gen\<close>
  returns for an exercise is \<open>exp (- ir t) * payoff t price_history\<close>, and the reward it
  returns for a continuation is \<open>0\<close>.
\<close>

theorem state_reward_gen_reward:
  assumes "price_arr < length h" and "h ! price_arr \<noteq> []"
  shows "(\<exists>s' w'. state_reward_gen L ap (t, price_arr) True dt (h, g) =
            (Inr (s', exp (- ir ap t) * payoff ap t (h ! price_arr)), w'))
       \<and> (\<exists>s' w'. state_reward_gen L ap (t, price_arr) False dt (h, g) = (Inr (s', 0), w'))"
  using assms by (simp add: Let_def split: prod.splits)

theorem state_reward_gen_reward_witness:
  "(\<exists>s' w'. state_reward_gen demo_lib gp (0, 0) True (1 / 10) ([[80]], 0) = (Inr (s', - 5), w'))
   \<and> (\<exists>s' w'. state_reward_gen demo_lib gp (0, 0) False (1 / 10) ([[80]], 0) = (Inr (s', 0), w'))"
  using state_reward_gen_reward
    [where price_arr = 0 and h = "[[80]]" and L = demo_lib and ap = gp and t = 0
       and dt = "1 / 10" and g = 0]
  by (simp add: gp_def)

text \<open>
  C8. \<^verbatim>\<open>terminal_state\<close> holds of a state exactly when its time is strictly greater than
  the expiry.
\<close>

theorem terminal_state_iff:
  "terminal_state ap (t, price_history) = (expiry ap < t)"
  by (simp add: terminal_state_def)

text \<open>
  C10. \<^verbatim>\<open>state_reward_gen\<close> leaves every array of the store as it was, the input price
  history among them. The price history of the next state is a new array, at a reference
  the store did not hold before; it is one element longer than the input, agrees with the
  input on all the input's positions, and ends with the price just drawn. On an empty
  history the call raises \<^verbatim>\<open>IndexError\<close> and changes nothing.
\<close>

theorem state_reward_gen_appends:
  assumes "price_arr < length h"
  shows "(h ! price_arr \<noteq> [] \<longrightarrow>
          (\<exists>next_t price1 reward h' g'.
             state_reward_gen L ap (t, price_arr) action dt (h, g) =
               (Inr ((next_t, price1), reward), (h', g'))
             \<and> (\<forall>a < length h. h' ! a = h ! a)
             \<and> length h \<le> price1 \<and> price1 < length h'
             \<and> length (h' ! price1) = length (h ! price_arr) + 1
             \<and> (\<forall>k < length (h ! price_arr). h' ! price1 ! k = h ! price_arr ! k)
             \<and> last (h' ! price1) =
                 fst (random_normal L g
                   (fst (get_future_price_mean_var L (last (h ! price_arr)) t dt
                           (ir ap) (dispersion ap)))
                   (sqrt (snd (get_future_price_mean_var L (last (h ! price_arr)) t dt
                                 (ir ap) (dispersion ap)))))))
       \<and> (h ! price_arr = [] \<longrightarrow>
            state_reward_gen L ap (t, price_arr) action dt (h, g) = (Inl IndexError, (h, g)))"
  using assms by (auto simp add: Let_def np_append_def nth_append split: prod.splits)

text \<open>
  The theorem at the initial state of the example, and at a state with an empty history.
\<close>

theorem state_reward_gen_appends_witness:
  "(\<exists>next_t price1 reward h' g'.
      state_reward_gen demo_lib gp (0, 0) False (1 / 10) ([[80]], 0) =
        (Inr ((next_t, price1), reward), (h', g'))
      \<and> h' ! 0 = [80] \<and> 1 \<le> price1 \<and> price1 < length h'
      \<and> length (h' ! price1) = 2 \<and> h' ! price1 ! 0 = 80)
   \<and> state_reward_gen demo_lib gp (0, 0) True (1 / 10) ([[]], 0) = (Inl IndexError, ([[]], 0))"
  using state_reward_gen_appends
    [where price_arr = 0 and h = "[[80]]" and L = demo_lib and ap = gp and t = 0
       and action = False and dt = "1 / 10" and g = 0]
    state_reward_gen_appends
    [where price_arr = 0 and h = "[[]]" and L = demo_lib and ap = gp and t = 0
       and action = True and dt = "1 / 10" and g = 0]
  by auto


section \<open>The claims about the Longstaff-Schwartz price\<close>




text \<open>
  C3, as the code has it. At a step of the backward induction at which no path has a
  strictly positive payoff, the regression and the exercise decision are skipped, and the
  cash-flow vector after the step is the vector before the step with every entry
  multiplied by the discount factor of the step, \<open>exp (ir t - ir (t + dt))\<close>.
\<close>

theorem ls_step_no_path_in_the_money:
  assumes "\<forall>i < num_paths. payoff ap (real t) (take (t + 1) (paths ! i)) \<le> 0"
  shows "ls_step L ap feature_funcs num_paths dt paths t cashflow
           = map (\<lambda>c. c * exp (ir ap (real t) - ir ap (real t + dt))) cashflow"
proof -
  have "filter (\<lambda>i. map (\<lambda>i. payoff ap (real t) (take (t + 1) (paths ! i))) [0..<num_paths] ! i > 0)
          [0..<num_paths] = []"
    using assms by (simp add: filter_empty_conv not_less)
  then show ?thesis
    by (simp add: ls_step_def Let_def disc_def)
qed

text \<open>
  One path of the example, \<open>80, 80, 90\<close>, at time index \<open>1\<close> of two steps: the payoff is
  \<open>- 5\<close> there, and the cash flow \<open>5\<close> is discounted.
\<close>

theorem ls_step_no_path_in_the_money_witness:
  "ls_step demo_lib gp [] 1 (3 / 2) [[80, 80, 90]] 1 [5]
     = [5 * exp (ir gp 1 - ir gp (1 + 3 / 2))]"
  using ls_step_no_path_in_the_money
    [where num_paths = 1 and ap = gp and t = 1 and paths = "[[80, 80, 90]]" and L = demo_lib
       and feature_funcs = "[]" and dt = "3 / 2" and cashflow = "[5]"]
  by (simp add: gp_def)

text \<open>
  On that step no path is in the money, and the cash-flow vector after the step differs
  from the one before it.
\<close>

theorem ls_step_discounts_counterexample:
  "payoff gp 1 (take 2 [80, 80, 90]) \<le> 0
   \<and> ls_step demo_lib gp [] 1 (3 / 2) [[80, 80, 90]] 1 [5] \<noteq> [5]"
  by (simp add: ls_step_def disc_def gp_def)



text \<open>
  C6, as the code has it. The cash flows are computed in doubles. For positive \<open>num_dt\<close>
  and \<open>num_paths\<close>, whatever the draws are: if a regression raises, so does
  \<^verbatim>\<open>get_ls_price\<close>; otherwise it returns a price, and the price is at least
  \<open>max (payoff 0 [spot]) 0\<close> unless the average of the discounted cash flows is NaN, in
  which case the price is \<open>payoff 0 [spot]\<close>.
\<close>

theorem get_ls_price_np_lower_bound:
  assumes "0 < num_dt" and "0 < num_paths"
  shows "let dt = expiry ap / real_of_int num_dt;
             paths = fst (simulate_paths L ap dt (nat num_dt) (nat num_paths) g)
         in case backward_induction_np lstsq_np ap feature_funcs (nat num_paths) dt paths
                   (rev [1..<nat num_dt]) (initial_cashflow_np ap (nat num_paths) paths) of
              Inl e \<Rightarrow>
                fst (get_ls_price_np L lstsq_np ap num_dt num_paths feature_funcs g) = Inl e
            | Inr cashflow \<Rightarrow>
                (\<exists>price.
                   fst (get_ls_price_np L lstsq_np ap num_dt num_paths feature_funcs g) = Inr price
                   \<and> (if discounted_average_np ap dt cashflow = NaN
                       then price = Finite (payoff ap 0 [spot_price ap])
                       else fle (Finite (max (payoff ap 0 [spot_price ap]) 0)) price))"
proof -
  let ?dt = "expiry ap / real_of_int num_dt"
  obtain paths g' where sim:
    "simulate_paths L ap ?dt (nat num_dt) (nat num_paths) g = (paths, g')"
    by (cases "simulate_paths L ap ?dt (nat num_dt) (nat num_paths) g")
  let ?run = "backward_induction_np lstsq_np ap feature_funcs (nat num_paths) ?dt paths
                (rev [1..<nat num_dt]) (initial_cashflow_np ap (nat num_paths) paths)"
  let ?p = "payoff ap 0 [spot_price ap]"
  have "case ?run of
          Inl e \<Rightarrow> fst (get_ls_price_np L lstsq_np ap num_dt num_paths feature_funcs g) = Inl e
        | Inr cashflow \<Rightarrow>
            (\<exists>price.
               fst (get_ls_price_np L lstsq_np ap num_dt num_paths feature_funcs g) = Inr price
               \<and> (if discounted_average_np ap ?dt cashflow = NaN then price = Finite ?p
                   else fle (Finite (max ?p 0)) price))"
  proof (cases ?run)
    case (Inl e)
    with assms show ?thesis
      by (simp add: get_ls_price_np_def Let_def sim)
  next
    case (Inr cashflow)
    have "\<forall>c \<in> set cashflow. nonneg_or_nan c"
      using backward_induction_np_nonneg_or_nan [OF initial_cashflow_np_nonneg Inr] .
    then have "nonneg_or_nan (discounted_average_np ap ?dt cashflow)"
      by (rule discounted_average_np_nonneg_or_nan)
    from py_max_lower_bound [OF this, of ?p]
    have bound: "if discounted_average_np ap ?dt cashflow = NaN
                 then py_max (Finite ?p) (discounted_average_np ap ?dt cashflow) = Finite ?p
                 else fle (Finite (max ?p 0))
                        (py_max (Finite ?p) (discounted_average_np ap ?dt cashflow))" .
    have "fst (get_ls_price_np L lstsq_np ap num_dt num_paths feature_funcs g) =
            Inr (py_max (Finite ?p) (discounted_average_np ap ?dt cashflow))"
      using assms Inr by (simp add: get_ls_price_np_def Let_def sim)
    with bound Inr show ?thesis
      by (simp split: if_splits)
  qed
  then show ?thesis
    by (simp add: Let_def sim)
qed

text \<open>
  The theorem on the run in doubles of the section before, where the price \<open>5\<close> is above
  the bound \<open>max (- 5) 0\<close>, and on the run with \<open>ir t = - 1000 * t\<close>, where the average is
  NaN and the price is the payoff at time \<open>0\<close>.
\<close>

theorem get_ls_price_np_lower_bound_witness:
  "(\<exists>price. fst (get_ls_price_np demo_lib lstsq_np_one_column
                  (gp\<lparr>expiry := 2, dispersion := \<lambda>t x. 10, ir := \<lambda>t. 0\<rparr>) 2 2 [\<lambda>t x. 1] 0)
              = Inr price
            \<and> fle (Finite (max (- 5) 0)) price)
   \<and> fst (get_ls_price_np fixed_draws_lib lstsq_np_one_column
             steep_gp 2 1 [] 0)
       = Inr (Finite (payoff steep_gp 0 [spot_price steep_gp]))"
  using
    get_ls_price_np_lower_bound
      [where num_dt = 2 and num_paths = 2 and L = demo_lib and lstsq_np = lstsq_np_one_column
         and ap = "gp\<lparr>expiry := 2, dispersion := \<lambda>t x. 10, ir := \<lambda>t. 0\<rparr>"
         and feature_funcs = "[\<lambda>t x. 1]" and g = 0]
    get_ls_price_np_lower_bound
      [where num_dt = 2 and num_paths = 1 and L = fixed_draws_lib
         and lstsq_np = lstsq_np_one_column and ap = steep_gp
         and feature_funcs = "[]" and g = 0]
  by (simp add: simulate_paths_def sim_path_def sim_step_def set2d_def
      np_empty_def initial_cashflow_np_def ls_step_np_def disc_np_def
      discounted_average_np_def np_average_np_def fsum_def np_dot_np_def
      lstsq_np_one_column_def lstsq_one_column_def enumerate_eq_zip
      gp_def steep_gp_def demo_lib_def fixed_draws_lib_def mean_var_spec_def
      alternating_normal_def Let_def
      upt_0_2 upt_1_2 replicate_3 np_round_0 np_round_moderate np_round_exp_1500)

text \<open>
  The example with the rate curve \<open>ir t = - 1000 * t\<close>, two steps and one path on which
  every drawn price is \<open>80\<close>. The cash flow at expiry is \<open>0\<close>; the discount factor at time
  index \<open>1\<close> is \<open>exp 1500\<close>, which overflows; \<open>0\<close> times infinity is NaN, the average is NaN,
  and the price returned is \<open>- 5\<close>, below \<open>max (- 5) 0 = 0\<close>.
\<close>

theorem get_ls_price_overflow_counterexample:
  "get_ls_price_np fixed_draws_lib lstsq_np_one_column steep_gp 2 1 [] 0
     = (Inr (Finite (- 5)), 2)
   \<and> \<not> fle (Finite (max (payoff steep_gp 0 [spot_price steep_gp]) 0)) (Finite (- 5))"
  by (simp add: get_ls_price_np_def simulate_paths_def sim_path_def sim_step_def set2d_def
      np_empty_def initial_cashflow_np_def ls_step_np_def disc_np_def
      discounted_average_np_def np_average_np_def fsum_def py_max_def
      gp_def steep_gp_def fixed_draws_lib_def demo_lib_def mean_var_spec_def Let_def
      upt_0_2 upt_1_2 replicate_3 np_round_exp_1500 np_round_moderate)

text \<open>
  C7. At a step of the backward induction, a path whose payoff at that step is not
  positive keeps its discounted cash flow: its entry after the step is its entry before
  the step times the discount factor of the step, whatever the regression on the other
  paths gives.
\<close>

theorem ls_step_out_of_money_untouched:
  assumes "i < num_paths" and "length cashflow = num_paths"
    and "payoff ap (real t) (take (t + 1) (paths ! i)) \<le> 0"
  shows "ls_step L ap feature_funcs num_paths dt paths t cashflow ! i
           = cashflow ! i * exp (ir ap (real t) - ir ap (real t + dt))"
  using assms
  by (simp add: ls_step_def Let_def disc_def exercise_untouched snd_enumerate)

text \<open>
  Two paths of the example at time index \<open>1\<close>: the second is in the money and enters the
  regression, the first is not.
\<close>

theorem ls_step_out_of_money_untouched_witness:
  "ls_step demo_lib gp [\<lambda>t x. 1] 2 (3 / 2) [[80, 80, 90], [80, 90, 100]] 1 [5, 15] ! 0
     = 5 * exp (ir gp 1 - ir gp (1 + 3 / 2))"
  using ls_step_out_of_money_untouched
    [where i = 0 and num_paths = 2 and cashflow = "[5, 15]" and ap = gp and t = 1
       and paths = "[[80, 80, 90], [80, 90, 100]]" and L = demo_lib
       and feature_funcs = "[\<lambda>t x. 1]" and dt = "3 / 2"]
  by (simp add: gp_def)

text \<open>
  C9. For positive \<open>num_dt\<close> and \<open>num_paths\<close>, whatever the draws are, the array of paths
  that \<^verbatim>\<open>get_ls_price\<close> simulates has \<open>num_paths\<close> rows of \<open>num_dt + 1\<close> cells, and the first
  cell of every row is the spot price.
\<close>

theorem simulate_paths_shape:
  assumes "0 < num_dt" and "0 < num_paths"
  shows "let paths = fst (simulate_paths L ap (expiry ap / real_of_int num_dt)
                            (nat num_dt) (nat num_paths) g)
         in length paths = nat num_paths
          \<and> (\<forall>i < nat num_paths.
                length (paths ! i) = nat num_dt + 1 \<and> paths ! i ! 0 = spot_price ap)"
  using path_shape_simulate_paths
    [of "nat num_paths" "nat num_dt" ap L "expiry ap / real_of_int num_dt" g]
  by (simp add: path_shape_def)

theorem simulate_paths_shape_witness:
  "length (fst (simulate_paths demo_lib gp (expiry gp / real_of_int 2) (nat 2) (nat 2) 0)) = 2
   \<and> length (fst (simulate_paths demo_lib gp (expiry gp / real_of_int 2) (nat 2) (nat 2) 0) ! 1) = 3
   \<and> fst (simulate_paths demo_lib gp (expiry gp / real_of_int 2) (nat 2) (nat 2) 0) ! 1 ! 0 = 80"
  using simulate_paths_shape
    [where num_dt = 2 and num_paths = 2 and L = demo_lib and ap = gp and g = 0]
  by (auto simp add: Let_def gp_def)

end
